theory Spec2Isabelle
  imports Complex_Main "HOL-Library.Multiset"
begin

section \<open>Numbers of the simulator\<close>

text \<open>
  The simulator of \<^verbatim>\<open>main.py\<close> computes with Python numbers and with one-element numpy
  arrays: \<^verbatim>\<open>np.random.choice(a, 1, ...)\<close> returns an array of one float, and every value
  computed from it (the profit, and from the first simulated year on the equity) is such an
  array. The two kinds agree on \<open>+\<close>, \<open>-\<close>, \<open>*\<close> and on comparisons, and differ on a division
  by zero: Python raises \<^verbatim>\<open>ZeroDivisionError\<close>, numpy yields \<open>inf\<close>, \<open>-inf\<close> or \<open>nan\<close>.

  Numbers are exact reals here: rounding, overflow and the sign of a floating-point zero are
  outside this model.
\<close>

datatype error = ZeroDivisionError | OverflowError | ValueError

datatype num = Py real | Np real

fun val :: "num \<Rightarrow> real" where
  "val (Py x) = x"
| "val (Np x) = x"

fun is_np :: "num \<Rightarrow> bool" where
  "is_np (Py x) = False"
| "is_np (Np x) = True"

text \<open>An operation on two numbers gives an array as soon as one operand is an array.\<close>

definition arith :: "(real \<Rightarrow> real \<Rightarrow> real) \<Rightarrow> num \<Rightarrow> num \<Rightarrow> num" where
  "arith f a b = (if is_np a \<or> is_np b then Np (f (val a) (val b)) else Py (f (val a) (val b)))"

definition add :: "num \<Rightarrow> num \<Rightarrow> num" where
  "add = arith (+)"

definition sub :: "num \<Rightarrow> num \<Rightarrow> num" where
  "sub = arith (-)"

definition mul :: "num \<Rightarrow> num \<Rightarrow> num" where
  "mul = arith (*)"

text \<open>A quotient is a finite number or, from numpy's division by zero, a special value.\<close>

datatype fl = Fin real | PosInf | NegInf | NaN

definition true_divide :: "num \<Rightarrow> num \<Rightarrow> error + fl" where
  "true_divide a b =
     (if is_np a \<or> is_np b then
        Inr (if val b \<noteq> 0 then Fin (val a / val b)
             else if 0 < val a then PosInf
             else if val a < 0 then NegInf
             else NaN)
      else if val b = 0 then Inl ZeroDivisionError
      else Inr (Fin (val a / val b)))"

text \<open>\<^verbatim>\<open>x >= y\<close> for a quotient \<open>x\<close> and a finite \<open>y\<close>: false on \<open>nan\<close>.\<close>

fun fl_ge :: "fl \<Rightarrow> real \<Rightarrow> bool" where
  "fl_ge (Fin x) y = (y \<le> x)"
| "fl_ge PosInf y = True"
| "fl_ge NegInf y = False"
| "fl_ge NaN y = False"

fun fl_less :: "fl \<Rightarrow> real \<Rightarrow> bool" where
  "fl_less (Fin x) y = (x < y)"
| "fl_less PosInf y = False"
| "fl_less NegInf y = True"
| "fl_less NaN y = False"

fun fl_times :: "fl \<Rightarrow> real \<Rightarrow> fl" where
  "fl_times (Fin x) y = Fin (x * y)"
| "fl_times PosInf y = (if 0 < y then PosInf else if y < 0 then NegInf else NaN)"
| "fl_times NegInf y = (if 0 < y then NegInf else if y < 0 then PosInf else NaN)"
| "fl_times NaN y = NaN"


text \<open>\<^verbatim>\<open>math.floor\<close> raises on a value that is not finite.\<close>

fun math_floor :: "fl \<Rightarrow> error + int" where
  "math_floor (Fin x) = Inr \<lfloor>x\<rfloor>"
| "math_floor PosInf = Inl OverflowError"
| "math_floor NegInf = Inl OverflowError"
| "math_floor NaN = Inl ValueError"

section \<open>Discounted cash flows\<close>

definition rfr :: real where
  "rfr = 0.04"


text \<open>A cash flow is the pair of its amount and the year it arrives.\<close>

type_synonym cashflow = "num \<times> int"






section \<open>The company\<close>

record company =
  equity :: num
  target_leverage :: real
  debt :: num
  reinvest_rate :: real
  cfs :: "cashflow list"

definition generate_company :: "real \<Rightarrow> real \<Rightarrow> real \<Rightarrow> company" where
  "generate_company e lev rr =
     \<lparr>equity = Py e, target_leverage = lev, debt = Py (e * lev - e), reinvest_rate = rr, cfs = []\<rparr>"

section \<open>One year of profit\<close>

text \<open>
  \<^verbatim>\<open>np.random.choice(a, size=None, replace=True, p=None)\<close> draws \<open>size\<close> elements of \<open>a\<close>, the
  index of each chosen with the probabilities \<open>p\<close>, or uniformly when \<open>p\<close> is \<open>None\<close>. A call
  is the record of its four arguments. The index that the generator picks is an input of the
  model, reduced into the range of \<open>a\<close>; an empty \<open>a\<close> raises \<^verbatim>\<open>ValueError\<close>.
\<close>

record choice_call =
  population :: "real list"
  size :: "nat option"
  replace :: bool
  p :: "real list option"

definition choice :: "choice_call \<Rightarrow> nat \<Rightarrow> error + real" where
  "choice call i =
     (if population call = [] then Inl ValueError
      else Inr (population call ! (i mod length (population call))))"

definition choice_probabilities :: "choice_call \<Rightarrow> real list" where
  "choice_probabilities call =
     (case p call of
        None \<Rightarrow> map (\<lambda>x. 1 / real (length (population call))) (population call)
      | Some ps \<Rightarrow> ps)"

text \<open>
  The call in \<^verbatim>\<open>gen_profit\<close> is \<^verbatim>\<open>np.random.choice([.3, .2, -.1, -.3], 1, [.3, .3, .25, .05])\<close>:
  the second list is the third positional argument, \<open>replace\<close>, where a list that is not
  empty counts as true, and \<open>p\<close> keeps its default.
\<close>

definition roa_call :: choice_call where
  "roa_call =
     \<lparr>population = [0.3, 0.2, - 0.1, - 0.3],
      size = Some 1,
      replace = ([0.3, 0.3, 0.25, 0.05 :: real] \<noteq> []),
      p = None\<rparr>"

definition debt_cost :: "company \<Rightarrow> error + real" where
  "debt_cost c =
     (case true_divide (add (debt c) (equity c)) (equity c) of
        Inl e \<Rightarrow> Inl e
      | Inr actual_leverage \<Rightarrow>
          if fl_ge actual_leverage 0 then
            (case math_floor (fl_times actual_leverage 2) of
               Inl e \<Rightarrow> Inl e
             | Inr k \<Rightarrow> Inr (rfr + 0.005 + of_int k * 0.01))
          else Inr rfr)"

definition gen_profit :: "nat \<Rightarrow> company \<Rightarrow> real \<Rightarrow> error + num" where
  "gen_profit i c profit_bump =
     (case choice roa_call i of
        Inl e \<Rightarrow> Inl e
      | Inr drawn \<Rightarrow>
          (let roa = add (Np drawn) (Py profit_bump);
               ebit = mul roa (add (equity c) (debt c))
           in case debt_cost c of
                Inl e \<Rightarrow> Inl e
              | Inr r \<Rightarrow> Inr (sub ebit (mul (Py r) (debt c)))))"

section \<open>The simulation loop\<close>

text \<open>
  The body of the loop after the profit is known: the leverage before the profit, then the
  three branches, each appending one event for the year.
\<close>

definition apply_profit :: "company \<Rightarrow> num \<Rightarrow> int \<Rightarrow> error + company" where
  "apply_profit c profit year =
     (case true_divide (add (debt c) (equity c)) (equity c) of
        Inl e \<Rightarrow> Inl e
      | Inr actual_leverage \<Rightarrow>
          Inr (if 0 \<le> val profit then
                 if fl_ge actual_leverage (target_leverage c) then
                   c\<lparr>debt := sub (debt c) profit,
                     equity := add (equity c) profit,
                     cfs := cfs c @ [(Py 0, year)]\<rparr>
                 else
                   (let dividend = mul profit (Py (1 - reinvest_rate c));
                        retained = mul profit (Py (reinvest_rate c));
                        equity' = add (equity c) retained
                    in c\<lparr>equity := equity',
                         debt := sub (mul equity' (Py (target_leverage c))) equity',
                         cfs := cfs c @ [(dividend, year)]\<rparr>)
               else
                 c\<lparr>equity := add (equity c) profit,
                   cfs := cfs c @ [(Py 0, year)]\<rparr>))"

text \<open>One iteration, for the year already incremented.\<close>

definition year_body :: "nat \<Rightarrow> real \<Rightarrow> company \<Rightarrow> int \<Rightarrow> error + company" where
  "year_body i profit_bump c year =
     (case gen_profit i c profit_bump of
        Inl e \<Rightarrow> Inl e
      | Inr profit \<Rightarrow> apply_profit c profit year)"

text \<open>
  The loop. \<open>rng k\<close> is the index that the generator picks at its \<open>k\<close>-th call; the loop calls
  it once per iteration, so the iteration entered with counter \<open>year\<close> takes \<open>rng (nat year)\<close>.
\<close>

function cfs_loop :: "(nat \<Rightarrow> nat) \<Rightarrow> real \<Rightarrow> company \<Rightarrow> int \<Rightarrow> error + company" where
  "cfs_loop rng profit_bump c year =
     (if 0 \<le> val (equity c) \<and> year \<le> 50 then
        (case year_body (rng (nat year)) profit_bump c (year + 1) of
           Inl e \<Rightarrow> Inl e
         | Inr c' \<Rightarrow> cfs_loop rng profit_bump c' (year + 1))
      else Inr c)"
  by pat_completeness auto
termination
  by (relation "measure (\<lambda>(rng, profit_bump, c, year). nat (51 - year))") auto

definition generate_company_cfs :: "(nat \<Rightarrow> nat) \<Rightarrow> company \<Rightarrow> real \<Rightarrow> error + company" where
  "generate_company_cfs rng c profit_bump = cfs_loop rng profit_bump c 0"

declare cfs_loop.simps [simp del]

section \<open>Arithmetic of the two kinds of number\<close>

lemma val_arith [simp]: "val (arith f a b) = f (val a) (val b)"
  by (simp add: arith_def)

lemma is_np_arith [simp]: "is_np (arith f a b) = (is_np a \<or> is_np b)"
  by (simp add: arith_def)

lemma val_add [simp]: "val (add a b) = val a + val b"
  by (simp add: add_def)

lemma val_sub [simp]: "val (sub a b) = val a - val b"
  by (simp add: sub_def)

lemma val_mul [simp]: "val (mul a b) = val a * val b"
  by (simp add: mul_def)

lemma is_np_add [simp]: "is_np (add a b) = (is_np a \<or> is_np b)"
  by (simp add: add_def)

lemma is_np_sub [simp]: "is_np (sub a b) = (is_np a \<or> is_np b)"
  by (simp add: sub_def)

lemma is_np_mul [simp]: "is_np (mul a b) = (is_np a \<or> is_np b)"
  by (simp add: mul_def)

lemma fl_less_not_ge: "fl_less x y \<Longrightarrow> \<not> fl_ge x y"
  by (cases x) auto



text \<open>The definitions that a run on concrete numbers unfolds.\<close>

lemmas run_defs = year_body_def gen_profit_def debt_cost_def apply_profit_def true_divide_def
  generate_company_def choice_def roa_call_def rfr_def add_def sub_def mul_def arith_def Let_def

section \<open>The present value\<close>











section \<open>One year\<close>

lemma apply_profit_frame:
  assumes "apply_profit c profit year = Inr c'"
  shows "\<exists>amount. cfs c' = cfs c @ [(amount, year)] \<and>
           reinvest_rate c' = reinvest_rate c \<and> target_leverage c' = target_leverage c"
  using assms by (auto simp: apply_profit_def Let_def split: sum.splits if_splits)

lemma apply_profit_amount:
  assumes "apply_profit c profit year = Inr c'"
    and "0 \<le> reinvest_rate c" and "reinvest_rate c \<le> 1"
    and "cfs c' = cfs c @ [(amount, year')]"
  shows "0 \<le> val amount"
  using assms by (auto simp: apply_profit_def Let_def split: sum.splits if_splits)


text \<open>
  A profit is an array, and it is realized only where the leverage is computed; after a
  year the equity is an array too.
\<close>

lemma gen_profit_array:
  assumes "gen_profit i c profit_bump = Inr profit"
  shows "is_np profit \<and> (\<exists>al. true_divide (add (debt c) (equity c)) (equity c) = Inr al)"
  using assms by (auto simp: gen_profit_def debt_cost_def Let_def split: sum.splits)

lemma apply_profit_equity_array:
  assumes "apply_profit c profit year = Inr c'" and "is_np profit"
  shows "is_np (equity c')"
  using assms by (auto simp: apply_profit_def Let_def split: sum.splits if_splits)

lemma year_body_equity_array:
  assumes "year_body i profit_bump c year = Inr c'"
  shows "is_np (equity c')"
  using assms
  by (auto simp: year_body_def split: sum.splits dest: gen_profit_array apply_profit_equity_array)

lemma year_body_frame:
  assumes "year_body i profit_bump c year = Inr c'"
  shows "\<exists>amount. cfs c' = cfs c @ [(amount, year)] \<and>
           reinvest_rate c' = reinvest_rate c \<and> target_leverage c' = target_leverage c"
  using assms by (auto simp: year_body_def split: sum.splits dest: apply_profit_frame)

lemma year_body_amount:
  assumes "year_body i profit_bump c year = Inr c'"
    and "0 \<le> reinvest_rate c" and "reinvest_rate c \<le> 1"
    and "cfs c' = cfs c @ [(amount, year')]"
  shows "0 \<le> val amount"
  using assms by (auto simp: year_body_def split: sum.splits dest: apply_profit_amount)


section \<open>The loop\<close>

lemma cfs_loop_stop:
  "\<not> (0 \<le> val (equity c) \<and> year \<le> 50) \<Longrightarrow> cfs_loop rng profit_bump c year = Inr c"
  by (subst cfs_loop.simps) auto

lemma cfs_loop_continue:
  assumes "0 \<le> val (equity c) \<and> year \<le> 50"
    and "cfs_loop rng profit_bump c year = Inr c'"
  obtains c1 where "year_body (rng (nat year)) profit_bump c (year + 1) = Inr c1"
    and "cfs_loop rng profit_bump c1 (year + 1) = Inr c'"
  using assms by (subst (asm) cfs_loop.simps) (auto split: sum.splits)

lemma upto_step: "[y + 1..y + int (Suc n)] = (y + 1) # [y + 1 + 1..y + 1 + int n]"
  by (subst upto_rec1) (simp_all add: algebra_simps)

text \<open>
  A run that returns has appended one event per year, for the years after the counter it
  started from, and has stopped on a negative equity or past the counter 50.
\<close>

lemma cfs_loop_appends:
  assumes "cfs_loop rng profit_bump c year = Inr c'"
  shows "\<exists>new. cfs c' = cfs c @ new \<and>
           map snd new = [year + 1..year + int (length new)] \<and>
           (val (equity c') < 0 \<or> 50 < year + int (length new)) \<and>
           (year \<le> 51 \<longrightarrow> year + int (length new) \<le> 51) \<and>
           reinvest_rate c' = reinvest_rate c \<and> target_leverage c' = target_leverage c"
  using assms
proof (induction rng profit_bump c year rule: cfs_loop.induct)
  case (1 rng profit_bump c year)
  show ?case
  proof (cases "0 \<le> val (equity c) \<and> year \<le> 50")
    case False
    with "1.prems" have "c' = c"
      by (simp add: cfs_loop_stop)
    with False show ?thesis
      by auto
  next
    case True
    from cfs_loop_continue [OF True "1.prems"(1)] obtain c1 where
      body: "year_body (rng (nat year)) profit_bump c (year + 1) = Inr c1" and
      rest: "cfs_loop rng profit_bump c1 (year + 1) = Inr c'"
      by blast
    from year_body_frame [OF body] obtain amount where
      c1: "cfs c1 = cfs c @ [(amount, year + 1)]"
        "reinvest_rate c1 = reinvest_rate c" "target_leverage c1 = target_leverage c"
      by blast
    from "1.IH" [OF True body rest] obtain new where
      new: "cfs c' = cfs c1 @ new"
        "map snd new = [year + 1 + 1..year + 1 + int (length new)]"
        "val (equity c') < 0 \<or> 50 < year + 1 + int (length new)"
        "year + 1 \<le> 51 \<longrightarrow> year + 1 + int (length new) \<le> 51"
        "reinvest_rate c' = reinvest_rate c1" "target_leverage c' = target_leverage c1"
      by blast
    let ?new = "(amount, year + 1) # new"
    have "cfs c' = cfs c @ ?new"
      using new(1) c1(1) by simp
    moreover have "map snd ?new = [year + 1..year + int (length ?new)]"
      using new(2) upto_step [of year "length new"] by simp
    moreover have "year + int (length ?new) = year + 1 + int (length new)"
      by simp
    ultimately show ?thesis
      using new(3-) c1(2-) True by (intro exI [of _ ?new]) (simp only:, simp)
  qed
qed

lemma cfs_loop_amounts:
  assumes "cfs_loop rng profit_bump c year = Inr c'"
    and "0 \<le> reinvest_rate c" and "reinvest_rate c \<le> 1"
    and "n \<le> length (cfs c)"
    and "\<forall>cf\<in>set (drop n (cfs c)). 0 \<le> val (fst cf)"
  shows "\<forall>cf\<in>set (drop n (cfs c')). 0 \<le> val (fst cf)"
  using assms
proof (induction rng profit_bump c year rule: cfs_loop.induct)
  case (1 rng profit_bump c year)
  show ?case
  proof (cases "0 \<le> val (equity c) \<and> year \<le> 50")
    case False
    with "1.prems" show ?thesis
      by (simp add: cfs_loop_stop)
  next
    case True
    from cfs_loop_continue [OF True "1.prems"(1)] obtain c1 where
      body: "year_body (rng (nat year)) profit_bump c (year + 1) = Inr c1" and
      rest: "cfs_loop rng profit_bump c1 (year + 1) = Inr c'"
      by blast
    from year_body_frame [OF body] obtain amount where
      c1: "cfs c1 = cfs c @ [(amount, year + 1)]"
        "reinvest_rate c1 = reinvest_rate c"
      by blast
    from year_body_amount [OF body "1.prems"(2,3) c1(1)] have "0 \<le> val amount" .
    with c1(1) "1.prems"(4,5) have "\<forall>cf\<in>set (drop n (cfs c1)). 0 \<le> val (fst cf)"
      by auto
    moreover have "n \<le> length (cfs c1)"
      using c1(1) "1.prems"(4) by simp
    moreover have "0 \<le> reinvest_rate c1" "reinvest_rate c1 \<le> 1"
      using c1(2) "1.prems"(2,3) by simp_all
    ultimately show ?thesis
      using "1.IH" [OF True body rest] by blast
  qed
qed



section \<open>The horizon\<close>

text \<open>
  C1: every trial from a fresh company with positive equity records between 1 and 50 years,
  one event per year, the years being 1, 2, 3, \<dots> The loop tests \<open>year \<le> 50\<close> before it
  increments the year, so a company that stays solvent is simulated for a 51st year: with a
  target leverage of 1, a profit bump of 0.3 and the draw \<open>-0.3\<close> every year, the profit of
  every year is 0 and the run records 51 events, the last one for the year 51.
\<close>

theorem horizon_is_51_years:
  "generate_company_cfs (\<lambda>k. 3) (generate_company 10 1 0.5) 0.3 =
     Inr \<lparr>equity = Np 10, target_leverage = 1, debt = Np 0, reinvest_rate = 0.5,
          cfs = map (\<lambda>y. (Py 0, y)) [1..51]\<rparr>"
  by (simp add: generate_company_cfs_def run_defs cfs_loop.simps upto_rec1)

section \<open>The yearly transition\<close>

text \<open>
  C2: where the leverage before the profit is computed, the year's step returns, and: with
  a profit that is not negative and a leverage at or above the target, the debt decreases by
  the profit, the equity increases by it and the event of the year has the amount 0; with
  a profit that is not negative and a leverage below the target, the event has the amount
  \<open>profit * (1 - reinvest_rate)\<close>, the equity increases by \<open>profit * reinvest_rate\<close> and
  the debt is set to \<open>equity * target_leverage - equity\<close> for the new equity; with a negative
  profit, the equity increases by the profit, the debt is unchanged and the event has the
  amount 0.
\<close>

theorem year_transition:
  assumes "true_divide (add (debt c) (equity c)) (equity c) = Inr actual_leverage"
  shows "\<exists>c'. apply_profit c profit year = Inr c' \<and>
           (0 \<le> val profit \<and> fl_ge actual_leverage (target_leverage c) \<longrightarrow>
              val (debt c') = val (debt c) - val profit \<and>
              val (equity c') = val (equity c) + val profit \<and>
              cfs c' = cfs c @ [(Py 0, year)]) \<and>
           (0 \<le> val profit \<and> fl_less actual_leverage (target_leverage c) \<longrightarrow>
              (\<exists>dividend. cfs c' = cfs c @ [(dividend, year)] \<and>
                 val dividend = val profit * (1 - reinvest_rate c)) \<and>
              val (equity c') = val (equity c) + val profit * reinvest_rate c \<and>
              val (debt c') = val (equity c') * target_leverage c - val (equity c')) \<and>
           (val profit < 0 \<longrightarrow>
              val (equity c') = val (equity c) + val profit \<and>
              debt c' = debt c \<and>
              cfs c' = cfs c @ [(Py 0, year)])"
  using assms by (auto simp: apply_profit_def Let_def dest: fl_less_not_ge)

theorem year_transition_witness:
  "(\<exists>c'. apply_profit (generate_company 10 2 0.5) (Np 1) 1 = Inr c' \<and>
      val (debt c') = 9 \<and> val (equity c') = 11 \<and> cfs c' = [(Py 0, 1)]) \<and>
   (\<exists>c'. apply_profit
            \<lparr>equity = Np 20, target_leverage = 2, debt = Np 10, reinvest_rate = 0.5, cfs = []\<rparr>
            (Np 1) 1 = Inr c' \<and>
      (\<exists>dividend. cfs c' = [(dividend, 1)] \<and> val dividend = 0.5) \<and>
      val (equity c') = 20.5 \<and> val (debt c') = 20.5) \<and>
   (\<exists>c'. apply_profit (generate_company 10 2 0.5) (Np (- 1)) 1 = Inr c' \<and>
      val (equity c') = 9 \<and> debt c' = Py 10 \<and> cfs c' = [(Py 0, 1)])"
proof -
  let ?fresh = "generate_company 10 2 0.5"
  let ?under = "\<lparr>equity = Np 20, target_leverage = 2, debt = Np 10, reinvest_rate = 0.5, cfs = []\<rparr>"
  have fresh: "true_divide (add (debt ?fresh) (equity ?fresh)) (equity ?fresh) = Inr (Fin 2)"
    by (simp add: run_defs)
  have under: "true_divide (add (debt ?under) (equity ?under)) (equity ?under) = Inr (Fin 1.5)"
    by (simp add: run_defs)
  show ?thesis
    using year_transition [OF fresh, of "Np 1" 1] year_transition [OF under, of "Np 1" 1]
      year_transition [OF fresh, of "Np (- 1)" 1]
    by (auto simp: generate_company_def)
qed

text \<open>
  C3: \<open>debt = equity * target_leverage - equity\<close> holds of the company that
  \<open>generate_company\<close> builds, and of the company after every step of the loop that takes the
  reinvestment branch (a profit that is not negative, a leverage not at or above the target).
\<close>

theorem relever_invariant:
  "val (debt (generate_company e lev rr)) =
     val (equity (generate_company e lev rr)) * target_leverage (generate_company e lev rr)
       - val (equity (generate_company e lev rr)) \<and>
   (true_divide (add (debt c) (equity c)) (equity c) = Inr actual_leverage \<and>
      0 \<le> val profit \<and> \<not> fl_ge actual_leverage (target_leverage c) \<longrightarrow>
      (\<exists>c'. apply_profit c profit year = Inr c' \<and>
         val (debt c') = val (equity c') * target_leverage c' - val (equity c')))"
  by (auto simp: generate_company_def apply_profit_def Let_def)

theorem relever_invariant_witness:
  "val (debt (generate_company 10 2 0.5)) = 10 \<and>
   (\<exists>c'. apply_profit
            \<lparr>equity = Np 20, target_leverage = 2, debt = Np 10, reinvest_rate = 0.5, cfs = []\<rparr>
            (Np 1) 1 = Inr c' \<and>
      val (equity c') = 20.5 \<and>
      val (debt c') = val (equity c') * target_leverage c' - val (equity c'))"
proof -
  let ?under = "\<lparr>equity = Np 20, target_leverage = 2, debt = Np 10, reinvest_rate = 0.5, cfs = []\<rparr>"
  have under: "true_divide (add (debt ?under) (equity ?under)) (equity ?under) = Inr (Fin 1.5) \<and>
      0 \<le> val (Np 1) \<and> \<not> fl_ge (Fin 1.5) (target_leverage ?under)"
    by (simp add: run_defs)
  show ?thesis
    using under relever_invariant [of 10 2 "0.5" ?under "Fin 1.5" "Np 1" 1]
    by (auto simp: apply_profit_def generate_company_def Let_def)
qed

section \<open>The cost of debt\<close>

text \<open>
  C6: for a company whose equity is not zero, \<open>debt_cost\<close> returns
  \<open>rfr + 0.005 + floor(actual_leverage * 2) * 0.01\<close> when
  \<open>actual_leverage = (debt + equity) / equity\<close> is at least 0, and \<open>rfr\<close> when it is
  negative; a fresh company with a target leverage of \<open>-0.5\<close> pays \<open>rfr\<close>, whatever its
  equity.
\<close>

theorem debt_cost_rate:
  "(val (equity c) \<noteq> 0 \<longrightarrow>
      debt_cost c =
        Inr (if 0 \<le> (val (debt c) + val (equity c)) / val (equity c)
             then rfr + 0.005 + of_int \<lfloor>(val (debt c) + val (equity c)) / val (equity c) * 2\<rfloor> * 0.01
             else rfr)) \<and>
   (e \<noteq> 0 \<longrightarrow> debt_cost (generate_company e (- 0.5) rr) = Inr rfr)"
  by (auto simp: debt_cost_def true_divide_def generate_company_def field_simps)

theorem debt_cost_rate_witness:
  "val (equity (generate_company 10 2 0.5)) \<noteq> 0 \<and>
   debt_cost (generate_company 10 2 0.5) = Inr 0.085 \<and>
   debt_cost (generate_company 10 (- 0.5) 0.5) = Inr 0.04"
  using debt_cost_rate [of "generate_company 10 2 0.5" 10 "0.5"]
  by (simp add: generate_company_def rfr_def)

section \<open>The return draw\<close>

text \<open>
  C4: each draw of \<open>gen_profit\<close> yields one value of the set \<open>{0.3, 0.2, -0.1, -0.3}\<close>, sampled
  with the probabilities \<open>{0.30, 0.30, 0.25, 0.05}\<close>, and the profit bump is added to it.
  The value is of that set, but the list of probabilities is passed in the place of
  \<open>replace\<close>: \<open>p\<close> is \<open>None\<close> and the four values are drawn with the probability 1/4 each.
\<close>

theorem roa_draw_is_uniform:
  "choice roa_call i \<in> {Inr 0.3, Inr 0.2, Inr (- 0.1), Inr (- 0.3)} \<and>
   p roa_call = None \<and>
   choice_probabilities roa_call = [1 / 4, 1 / 4, 1 / 4, 1 / 4] \<and>
   choice_probabilities roa_call \<noteq> [0.3, 0.3, 0.25, 0.05]"
proof -
  have "i mod 4 = 0 \<or> i mod 4 = 1 \<or> i mod 4 = 2 \<or> i mod 4 = 3"
    by arith
  then have "choice roa_call i \<in> {Inr 0.3, Inr 0.2, Inr (- 0.1), Inr (- 0.3)}"
    by (auto simp: choice_def roa_call_def)
  then show ?thesis
    by (simp add: choice_probabilities_def roa_call_def)
qed

section \<open>Ruin\<close>




section \<open>Dividends\<close>

text \<open>
  C10: with a reinvestment rate in \<open>[0, 1]\<close>, every event that a simulation appends has an
  amount that is not negative.
\<close>

theorem dividends_nonnegative:
  assumes "generate_company_cfs rng c profit_bump = Inr c'"
    and "0 \<le> reinvest_rate c" and "reinvest_rate c \<le> 1"
  shows "\<exists>new. cfs c' = cfs c @ new \<and> (\<forall>cf\<in>set new. 0 \<le> val (fst cf))"
proof -
  from assms(1) have run: "cfs_loop rng profit_bump c 0 = Inr c'"
    by (simp add: generate_company_cfs_def)
  from cfs_loop_appends [OF run] obtain new where new: "cfs c' = cfs c @ new"
    by blast
  from cfs_loop_amounts [OF run assms(2,3), of "length (cfs c)"]
  have "\<forall>cf\<in>set (drop (length (cfs c)) (cfs c')). 0 \<le> val (fst cf)"
    by simp
  with new show ?thesis
    by simp
qed

theorem dividends_nonnegative_witness:
  "generate_company_cfs (\<lambda>k. if k < 2 then 0 else 3) (generate_company 10 10 0.5) 0 =
     Inr \<lparr>equity = Np (- (178905089 / 1600000)), target_leverage = 10, debt = Np (1914561 / 8000),
          reinvest_rate = 0.5, cfs = [(Py 0, 1), (Np (69129 / 8000), 2), (Py 0, 3)]\<rparr> \<and>
   0 \<le> val (Py 0) \<and> 0 \<le> val (Np (69129 / 8000))"
proof -
  have run: "generate_company_cfs (\<lambda>k. if k < 2 then 0 else 3) (generate_company 10 10 0.5) 0 =
     Inr \<lparr>equity = Np (- (178905089 / 1600000)), target_leverage = 10, debt = Np (1914561 / 8000),
          reinvest_rate = 0.5, cfs = [(Py 0, 1), (Np (69129 / 8000), 2), (Py 0, 3)]\<rparr>"
    by (simp add: generate_company_cfs_def run_defs cfs_loop.simps)
  show ?thesis
    using run dividends_nonnegative [OF run] by (simp add: generate_company_def)
qed

section \<open>The present value of a sequence\<close>






section \<open>Zero equity\<close>

text \<open>
  C9, as stated: with an equity of exactly 0 the leverage computation, and so the step of the
  simulation, fails with a division-by-zero error and never yields an infinity or a NaN. A
  loss equal to the equity leaves the equity at 0 as a numpy array: the draw \<open>-0.3\<close> with a
  bump of \<open>-0.7\<close> loses the whole equity of an unlevered company in the first year. From
  then on the leverage is \<open>nan\<close>, \<open>debt_cost\<close> returns \<open>rfr\<close>, and the simulation runs to
  its last year without an error.
\<close>

theorem zero_equity_runs_silently:
  "year_body 3 (- 0.7) (generate_company 10 1 0.5) 1 =
     Inr \<lparr>equity = Np 0, target_leverage = 1, debt = Py 0, reinvest_rate = 0.5,
          cfs = [(Py 0, 1)]\<rparr> \<and>
   true_divide (add (Py 0) (Np 0)) (Np 0) = Inr NaN \<and>
   debt_cost \<lparr>equity = Np 0, target_leverage = 1, debt = Py 0, reinvest_rate = 0.5,
              cfs = [(Py 0, 1)]\<rparr> = Inr rfr \<and>
   generate_company_cfs (\<lambda>k. 3) (generate_company 10 1 0.5) (- 0.7) =
     Inr \<lparr>equity = Np 0, target_leverage = 1, debt = Np 0, reinvest_rate = 0.5,
          cfs = (Py 0, 1) # map (\<lambda>y. (Np 0, y)) [2..51]\<rparr>"
  by (simp add: generate_company_cfs_def run_defs cfs_loop.simps upto_rec1)

text \<open>
  C9, amended: with an equity of exactly 0, where the equity and the debt are Python numbers,
  as \<open>generate_company\<close> builds them, \<open>debt_cost\<close> raises \<open>ZeroDivisionError\<close>, and so do
  \<open>gen_profit\<close>, the step of the loop and the simulation. Where the equity is a numpy array,
  as it is after the first simulated year, \<open>debt_cost\<close> raises no \<open>ZeroDivisionError\<close>: it
  raises \<open>OverflowError\<close> when the debt is positive and returns \<open>rfr\<close> otherwise.
\<close>

theorem zero_equity_division:
  "(equity c = Py 0 \<and> \<not> is_np (debt c) \<longrightarrow>
      debt_cost c = Inl ZeroDivisionError \<and>
      gen_profit i c profit_bump = Inl ZeroDivisionError \<and>
      year_body i profit_bump c year = Inl ZeroDivisionError \<and>
      generate_company_cfs rng c profit_bump = Inl ZeroDivisionError) \<and>
   (is_np (equity c) \<and> val (equity c) = 0 \<longrightarrow>
      debt_cost c = (if 0 < val (debt c) then Inl OverflowError else Inr rfr))"
proof (intro conjI impI)
  assume py: "equity c = Py 0 \<and> \<not> is_np (debt c)"
  then show cost: "debt_cost c = Inl ZeroDivisionError"
    by (simp add: debt_cost_def true_divide_def)
  then show profit: "gen_profit i c profit_bump = Inl ZeroDivisionError" for i
    by (simp add: gen_profit_def choice_def roa_call_def)
  then show body: "year_body i profit_bump c year = Inl ZeroDivisionError" for i year
    by (simp add: year_body_def)
  from py show "generate_company_cfs rng c profit_bump = Inl ZeroDivisionError"
    unfolding generate_company_cfs_def by (subst cfs_loop.simps) (simp add: body)
next
  assume "is_np (equity c) \<and> val (equity c) = 0"
  then show "debt_cost c = (if 0 < val (debt c) then Inl OverflowError else Inr rfr)"
    by (simp add: debt_cost_def true_divide_def)
qed

theorem zero_equity_division_witness:
  "equity (generate_company 0 2 0.5) = Py 0 \<and> \<not> is_np (debt (generate_company 0 2 0.5)) \<and>
   debt_cost (generate_company 0 2 0.5) = Inl ZeroDivisionError \<and>
   generate_company_cfs (\<lambda>k. 0) (generate_company 0 2 0.5) 0.065 = Inl ZeroDivisionError \<and>
   debt_cost \<lparr>equity = Np 0, target_leverage = 2, debt = Np 5, reinvest_rate = 0.5, cfs = []\<rparr>
     = Inl OverflowError"
  using zero_equity_division [of "generate_company 0 2 0.5" 0 "0.065" 1 "\<lambda>k. 0"]
    zero_equity_division
      [of "\<lparr>equity = Np 0, target_leverage = 2, debt = Np 5, reinvest_rate = 0.5, cfs = []\<rparr>"]
  by (simp add: generate_company_def)

end
